theory Spec2Isabelle
  imports Complex_Main
begin

section \<open>Configuration: \<open>src/apps/core/config.py\<close>\<close>

text \<open>
  The settings classes are pydantic \<open>BaseSettings\<close>: every field is declared as
  \<open>Field(default=d, alias=A)\<close> and takes the value of the environment variable \<open>A\<close>
  when the environment (the process environment and the dotenv file) defines it, the
  default \<open>d\<close> otherwise. The environment is modelled after pydantic's validation: one
  map per field type, from the variable's name to its parsed value. A value that does
  not validate makes the constructor raise while the module is imported, so no process
  runs with it.
\<close>

record environ =
  str_vars :: "string \<rightharpoonup> string"
  int_vars :: "string \<rightharpoonup> int"
  bool_vars :: "string \<rightharpoonup> bool"
  float_vars :: "string \<rightharpoonup> real"

definition no_overrides :: environ where
  "no_overrides = \<lparr>str_vars = Map.empty, int_vars = Map.empty,
     bool_vars = Map.empty, float_vars = Map.empty\<rparr>"

definition Field :: "('k \<rightharpoonup> 'v) \<Rightarrow> 'v \<Rightarrow> 'k \<Rightarrow> 'v" where
  "Field vars dflt alias = (case vars alias of None \<Rightarrow> dflt | Some v \<Rightarrow> v)"

subsection \<open>\<open>CommonSettings\<close>, \<open>HttpxSettings\<close>, \<open>AuthSettings\<close>\<close>

record CommonSettings =
  env_file :: string
  env_local_file :: string

record HttpxSettings = CommonSettings +
  max_connections :: int
  max_keepalive_connections :: int
  keepalive_expiry :: real
  timeout :: real

definition HttpxSettings_init :: "environ \<Rightarrow> HttpxSettings" where
  "HttpxSettings_init env =
     \<lparr>env_file = Field (str_vars env) ''.env'' ''ENV_FILE'',
      env_local_file = Field (str_vars env) ''.env.local'' ''ENV_LOCAL_FILE'',
      max_connections = Field (int_vars env) 500 ''MAX_CONNECTIONS'',
      max_keepalive_connections = Field (int_vars env) 50 ''MAX_KEEPALIVE_CONNECTIONS'',
      keepalive_expiry = Field (float_vars env) 30 ''KEEPALIVE_EXPIRY'',
      timeout = Field (float_vars env) 20 ''TIMEOUT''\<rparr>"

record AuthSettings = CommonSettings +
  token_url :: string
  private_key_path :: string
  public_key_path :: string
  algorithm :: string
  access_token_expire_minutes :: int
  refresh_token_expire_minutes :: int
  doctor_username :: string
  doctor_email :: string
  doctor_password :: string

definition AuthSettings_init :: "environ \<Rightarrow> AuthSettings" where
  "AuthSettings_init env =
     \<lparr>env_file = Field (str_vars env) ''.env'' ''ENV_FILE'',
      env_local_file = Field (str_vars env) ''.env.local'' ''ENV_LOCAL_FILE'',
      token_url = Field (str_vars env) ''http://localhost:8000/api/v1/auth/login'' ''TOKEN_URL'',
      private_key_path = Field (str_vars env) ''src/apps/certs/jwt-private.pem'' ''PRIVATE_KEY_PATH'',
      public_key_path = Field (str_vars env) ''src/apps/certs/jwt-public.pem'' ''PUBLIC_KEY_PATH'',
      algorithm = Field (str_vars env) ''RS256'' ''ALGORITHM'',
      access_token_expire_minutes = Field (int_vars env) 60 ''ACCESS_TOKEN_EXPIRE_MINUTES'',
      refresh_token_expire_minutes = Field (int_vars env) 10000 ''REFRESH_TOKEN_EXPIRE_MINUTES'',
      doctor_username = Field (str_vars env) ''doctor'' ''DOCTOR_USERNAME'',
      doctor_email = Field (str_vars env) ''doctor@example.com'' ''DOCTOR_EMAIL'',
      doctor_password = Field (str_vars env) ''securepassword'' ''DOCTOR_PASSWORD''\<rparr>"

subsection \<open>\<open>DatabaseSettings\<close> and its two DSN validators\<close>

text \<open>
  What \<open>sqlalchemy.URL.create\<close> is given: its keyword arguments \<open>drivername\<close>,
  \<open>username\<close>, \<open>password\<close>, \<open>host\<close>, \<open>port\<close> and \<open>database\<close>, prefixed with
  \<open>url_\<close> here since other classes have fields of the same names.
\<close>

record URL =
  url_drivername :: string
  url_username :: string
  url_password :: string
  url_host :: string
  url_port :: int
  url_database :: string

definition build_db_dsn :: "string \<Rightarrow> string \<Rightarrow> string \<Rightarrow> int \<Rightarrow> string \<Rightarrow> bool \<Rightarrow> URL" where
  "build_db_dsn usr pwd hst prt db async_dsn =
     (let driver_name = ''postgresql'';
          driver_name = (if async_dsn then driver_name @ ''+asyncpg'' else driver_name)
      in \<lparr>url_drivername = driver_name, url_username = usr, url_password = pwd,
          url_host = hst, url_port = prt, url_database = db\<rparr>)"

record DatabaseSettings = CommonSettings +
  pg_host :: string
  pg_user :: string
  pg_password :: string
  pg_database :: string
  pg_port :: int
  pg_test_database :: string
  pytest_debug :: bool
  async_database_url :: "URL option"
  sync_database_url :: "URL option"

definition validate_async_database_url :: "DatabaseSettings \<Rightarrow> DatabaseSettings" where
  "validate_async_database_url self =
     (let db_name = (if pytest_debug self then pg_test_database self else pg_database self)
      in self\<lparr>async_database_url :=
           Some (build_db_dsn (pg_user self) (pg_password self) (pg_host self)
                   (pg_port self) db_name True)\<rparr>)"

definition validate_sync_database_url :: "DatabaseSettings \<Rightarrow> DatabaseSettings" where
  "validate_sync_database_url self =
     self\<lparr>sync_database_url :=
       Some (build_db_dsn (pg_user self) (pg_password self) (pg_host self)
               (pg_port self) (pg_database self) False)\<rparr>"

text \<open>
  The constructor fills the fields from the environment (both URL fields start as
  \<open>None\<close>), then runs the two \<open>mode="after"\<close> validators in the order the class
  declares them.
\<close>

definition DatabaseSettings_fields :: "environ \<Rightarrow> DatabaseSettings" where
  "DatabaseSettings_fields env =
     \<lparr>env_file = Field (str_vars env) ''.env'' ''ENV_FILE'',
      env_local_file = Field (str_vars env) ''.env.local'' ''ENV_LOCAL_FILE'',
      pg_host = Field (str_vars env) ''localhost'' ''PG_HOST'',
      pg_user = Field (str_vars env) ''postgres'' ''PG_USER'',
      pg_password = Field (str_vars env) ''postgres'' ''PG_PASSWORD'',
      pg_database = Field (str_vars env) ''postgres'' ''PG_DATABASE'',
      pg_port = Field (int_vars env) 5432 ''PG_PORT'',
      pg_test_database = Field (str_vars env) ''doctor_test'' ''PG_TEST_DATABASE'',
      pytest_debug = Field (bool_vars env) False ''PYTEST_DEBUG'',
      async_database_url = None,
      sync_database_url = None\<rparr>"

definition DatabaseSettings_init :: "environ \<Rightarrow> DatabaseSettings" where
  "DatabaseSettings_init env =
     validate_sync_database_url (validate_async_database_url (DatabaseSettings_fields env))"

text \<open>The database a DSN field names; \<open>None\<close> while the field is unset.\<close>

definition dsn_database :: "URL option \<Rightarrow> string option" where
  "dsn_database u = map_option url_database u"

subsection \<open>\<open>Settings\<close> and the cached \<open>get_settings\<close>\<close>

record Settings = CommonSettings +
  db :: DatabaseSettings
  auth :: AuthSettings
  client :: HttpxSettings
  client_id :: string
  client_secret :: string
  port :: int
  host :: string
  default_page_size :: int
  max_page_size :: int
  openapi_url :: string

text \<open>
  The three nested fields have no alias and a default that the class body evaluates:
  \<open>db: DatabaseSettings = DatabaseSettings()\<close> constructs the default once, when the
  \<open>class\<close> statement runs, from the environment of that moment. A later \<open>Settings()\<close>
  takes a nested field from the variable of the field's name (\<open>DB\<close>, \<open>AUTH\<close>, \<open>CLIENT\<close>,
  a JSON value that pydantic validates into the nested class) when the environment
  defines it, and the class-body default otherwise.
\<close>

record Settings_class =
  db_default :: DatabaseSettings
  auth_default :: AuthSettings
  client_default :: HttpxSettings

definition Settings_class_body :: "environ \<Rightarrow> Settings_class" where
  "Settings_class_body env =
     \<lparr>db_default = DatabaseSettings_init env,
      auth_default = AuthSettings_init env,
      client_default = HttpxSettings_init env\<rparr>"

text \<open>
  The environment as \<open>Settings()\<close> reads it: the scalar variables, and the validated
  values of the three nested variables.
\<close>

record settings_environ =
  variables :: environ
  DB :: "DatabaseSettings option"
  AUTH :: "AuthSettings option"
  CLIENT :: "HttpxSettings option"

definition Settings_init :: "Settings_class \<Rightarrow> settings_environ \<Rightarrow> Settings" where
  "Settings_init cls senv =
     (let env = variables senv in
      \<lparr>env_file = Field (str_vars env) ''.env'' ''ENV_FILE'',
       env_local_file = Field (str_vars env) ''.env.local'' ''ENV_LOCAL_FILE'',
       db = (case DB senv of None \<Rightarrow> db_default cls | Some v \<Rightarrow> v),
       auth = (case AUTH senv of None \<Rightarrow> auth_default cls | Some v \<Rightarrow> v),
       client = (case CLIENT senv of None \<Rightarrow> client_default cls | Some v \<Rightarrow> v),
       client_id = Field (str_vars env) ''fastapi'' ''CLIENT_ID'',
       client_secret = Field (str_vars env) ''fastapi_secret'' ''CLIENT_SECRET'',
       port = Field (int_vars env) 8000 ''PORT'',
       host = Field (str_vars env) ''localhost'' ''HOST'',
       default_page_size = Field (int_vars env) 30 ''PAGE_SIZE'',
       max_page_size = Field (int_vars env) 30 ''MAX_PAGE_SIZE'',
       openapi_url = Field (str_vars env) ''/docs'' ''OPENAPI_URL''\<rparr>)"

text \<open>
  \<open>get_settings\<close> is wrapped in \<open>functools.lru_cache\<close> and takes no argument, so the
  cache has one slot: empty until a call returns, then holding a reference to that
  call's result until \<open>get_settings.cache_clear()\<close> empties it. A \<open>Settings\<close> object is
  shared by everyone who holds a reference to it and is not frozen
  (\<open>model_config\<close> sets \<open>extra="allow"\<close> and no \<open>frozen\<close>), so objects live in a heap: the
  list of the objects the body of \<open>get_settings\<close> has constructed, a reference being an
  index into it. The process is its current environment (which the program or its
  operator may change at any time), the class attributes of \<open>Settings\<close>, the heap and
  the cache slot.
\<close>

record process =
  environment :: settings_environ
  class_attributes :: Settings_class
  heap :: "Settings list"
  cache :: "nat option"

definition get_settings :: "process \<Rightarrow> nat \<times> process" where
  "get_settings p =
     (case cache p of
        Some r \<Rightarrow> (r, p)
      | None \<Rightarrow>
          (let s = Settings_init (class_attributes p) (environment p);
               r = length (heap p)
           in (r, p\<lparr>heap := heap p @ [s], cache := Some r\<rparr>)))"

text \<open>How often the body of \<open>get_settings\<close>, that is the constructor, has run.\<close>

definition constructed :: "process \<Rightarrow> nat" where
  "constructed p = length (heap p)"

text \<open>
  Importing \<open>core.config\<close> runs the class bodies, then, from an empty cache, its last
  line \<open>settings = get_settings()\<close>.
\<close>

definition import_config :: "settings_environ \<Rightarrow> nat \<times> process" where
  "import_config senv =
     get_settings \<lparr>environment = senv,
                   class_attributes = Settings_class_body (variables senv),
                   heap = [], cache = None\<rparr>"

text \<open>
  What a program can do afterwards, as far as the settings are concerned: call
  \<open>get_settings\<close>; change the environment; assign to attributes of a \<open>Settings\<close> object
  it holds a reference to (\<open>SetAttr r f\<close> turns the object at \<open>r\<close> into \<open>f\<close> of it; it
  does nothing when \<open>r\<close> refers to no object); call \<open>get_settings.cache_clear()\<close>. The
  source files themselves only call \<open>get_settings\<close>. \<open>run\<close> performs a sequence of
  operations and collects the references the calls of \<open>get_settings\<close> return.
\<close>

datatype operation =
    GetSettings
  | SetEnviron settings_environ
  | SetAttr nat "Settings \<Rightarrow> Settings"
  | CacheClear

fun run :: "process \<Rightarrow> operation list \<Rightarrow> nat list \<times> process" where
  "run p [] = ([], p)"
| "run p (GetSettings # ops) =
     (let (r, p') = get_settings p; (out, p'') = run p' ops in (r # out, p''))"
| "run p (SetEnviron senv # ops) = run (p\<lparr>environment := senv\<rparr>) ops"
| "run p (SetAttr r f # ops) =
     run (p\<lparr>heap := (if r < length (heap p) then (heap p)[r := f (heap p ! r)]
                       else heap p)\<rparr>) ops"
| "run p (CacheClear # ops) = run (p\<lparr>cache := None\<rparr>) ops"

fun is_get_settings :: "operation \<Rightarrow> bool" where
  "is_get_settings GetSettings = True"
| "is_get_settings _ = False"

fun is_set_attr :: "operation \<Rightarrow> bool" where
  "is_set_attr (SetAttr r f) = True"
| "is_set_attr _ = False"

fun is_cache_clear :: "operation \<Rightarrow> bool" where
  "is_cache_clear CacheClear = True"
| "is_cache_clear _ = False"

section \<open>The collaborators of the login controller\<close>

text \<open>
  \<open>auth.py\<close> imports the authentication service, \<open>core.security.Security\<close>, the
  constant \<open>REFRESH\<close> and the schemas, none of which is among the source files. Their
  vocabulary is taken from the specification (sections 3, 4 and 7).
\<close>

datatype auth_error =
    KeyLoadError
  | TokenInvalidError
  | TokenExpiredError
  | TokenKindMismatchError
  | UserNotFoundError
  | InvalidCredentialsError
  | UserStoreUnavailable

subsection \<open>Token Codec (specification 4.2)\<close>

datatype kind = Access | Refresh

text \<open>Timestamps are seconds since the epoch, durations are seconds.\<close>

record claims =
  claim_sub :: string
  claim_kind :: kind
  claim_iat :: int
  claim_exp :: int

text \<open>
  Keys and signatures are symbolic. A key pair is generated together, and the number
  its two halves carry says which generation they come from; a signature records the
  private key that made it and the claims it was made over, and the public key of the
  same generation accepts it over exactly those claims.
\<close>

datatype PrivateKey = PrivateKey nat

datatype PublicKey = PublicKey nat

datatype Signature = Signature PrivateKey claims

record KeyPair =
  private_key :: PrivateKey
  public_key :: PublicKey

definition sign :: "PrivateKey \<Rightarrow> claims \<Rightarrow> Signature" where
  "sign k c = Signature k c"

fun verify_signature :: "PublicKey \<Rightarrow> claims \<Rightarrow> Signature \<Rightarrow> bool" where
  "verify_signature (PublicKey n) c (Signature (PrivateKey m) c') = (n = m \<and> c = c')"

text \<open>
  A token string either parses into claims and a signature, or is some other string;
  the empty string is \<open>Malformed []\<close>.
\<close>

datatype TokenString = Signed claims Signature | Malformed string

text \<open>
  Modelled from the spec: the signature self-test of the Key Material Provider
  (specification 4.1), whose loader is not among the source files: \<open>load\<close> fails with
  \<open>KeyLoadError\<close> on a pair that does not pass it, so every pair a request sees is
  \<open>matched\<close>.
\<close>

definition self_test_claims :: claims where
  "self_test_claims = \<lparr>claim_sub = [], claim_kind = Access, claim_iat = 0, claim_exp = 0\<rparr>"

definition matched :: "KeyPair \<Rightarrow> bool" where
  "matched kp =
     verify_signature (public_key kp) self_test_claims (sign (private_key kp) self_test_claims)"

text \<open>
  Modelled from the spec: \<open>mint\<close> of the Token Codec (specification 4.2), which
  \<open>core.security\<close>, not among the source files, implements. It builds the claims
  \<open>{sub = subject, kind, iat = now, exp = now + ttl}\<close> and signs them with the private
  key; the clock reading \<open>now\<close> is an argument.
\<close>

definition mint :: "KeyPair \<Rightarrow> int \<Rightarrow> string \<Rightarrow> kind \<Rightarrow> int \<Rightarrow> TokenString" where
  "mint kp now subject k ttl =
     (let c = \<lparr>claim_sub = subject, claim_kind = k, claim_iat = now, claim_exp = now + ttl\<rparr>
      in Signed c (sign (private_key kp) c))"

text \<open>
  Modelled from the spec: \<open>verify\<close> of the Token Codec (specification 4.2), not among
  the source files. In the specification's order it parses, checks the signature against
  the public key (\<open>TokenInvalidError\<close>), checks \<open>exp > now\<close> (\<open>TokenExpiredError\<close> when
  \<open>exp \<le> now\<close>) and checks \<open>kind == expected_kind\<close> (\<open>TokenKindMismatchError\<close>); it
  returns the subject.
\<close>

definition verify :: "KeyPair \<Rightarrow> int \<Rightarrow> TokenString \<Rightarrow> kind \<Rightarrow> auth_error + string" where
  "verify kp now token expected_kind =
     (case token of
        Malformed _ \<Rightarrow> Inl TokenInvalidError
      | Signed c sg \<Rightarrow>
          if \<not> verify_signature (public_key kp) c sg then Inl TokenInvalidError
          else if \<not> (claim_exp c > now) then Inl TokenExpiredError
          else if claim_kind c \<noteq> expected_kind then Inl TokenKindMismatchError
          else Inr (claim_sub c))"

subsection \<open>Credential Authenticator (specification 4.3)\<close>

text \<open>
  A user's id is opaque; the controller only takes \<open>str(user.id)\<close>, so an id is
  represented by that string.
\<close>

datatype UserId = UserId string

fun str :: "UserId \<Rightarrow> string" where
  "str (UserId s) = s"

text \<open>
  A password hash is symbolic as well: it records the salt and the secret it was
  computed from, and only verification looks inside.
\<close>

datatype PasswordHash = PasswordHash string string

fun PasswordHasher_verify :: "string \<Rightarrow> PasswordHash \<Rightarrow> bool" where
  "PasswordHasher_verify secret (PasswordHash salt hashed) = (secret = hashed)"

record UserRecord =
  user_id :: UserId
  username :: string
  email :: string
  password_hash :: PasswordHash

text \<open>
  Modelled from the spec: \<open>UserStore.find_by_username_or_email\<close> (specification 4.3
  and 6), not among the source files. The presence of \<open>@\<close> in the identifier decides
  which field is queried. The store is the list of its records.
\<close>

definition find_by_username_or_email :: "UserRecord list \<Rightarrow> string \<Rightarrow> UserRecord option" where
  "find_by_username_or_email store identifier =
     (if CHR ''@'' \<in> set identifier
      then find (\<lambda>u. email u = identifier) store
      else find (\<lambda>u. username u = identifier) store)"

text \<open>
  Modelled from the spec: \<open>authenticate\<close> of the Credential Authenticator
  (specification 4.3), which the service method \<open>user_authenticate\<close>, not among the
  source files, implements. It fails with \<open>UserNotFoundError\<close> or
  \<open>InvalidCredentialsError\<close>; the controller needs the record, so the record is returned.
\<close>

definition authenticate :: "UserRecord list \<Rightarrow> string \<Rightarrow> string \<Rightarrow> auth_error + UserRecord" where
  "authenticate store identifier secret =
     (case find_by_username_or_email store identifier of
        None \<Rightarrow> Inl UserNotFoundError
      | Some u \<Rightarrow>
          if PasswordHasher_verify secret (password_hash u) then Inr u
          else Inl InvalidCredentialsError)"

subsection \<open>How an error surfaces (specification 7)\<close>

text \<open>
  Modelled from the spec: the error taxonomy of specification 7; the exception classes
  and handlers are not among the source files. \<open>UserNotFoundError\<close> and
  \<open>InvalidCredentialsError\<close> are merged into the one externally visible
  \<open>InvalidCredentialsError\<close>; the token errors and it are answered with 401, a failure
  of the user store with 503, and an unusable key pair never serves a request (500).
\<close>

fun surface :: "auth_error \<Rightarrow> auth_error" where
  "surface UserNotFoundError = InvalidCredentialsError"
| "surface e = e"

fun http_status :: "auth_error \<Rightarrow> nat" where
  "http_status KeyLoadError = 500"
| "http_status UserStoreUnavailable = 503"
| "http_status e = 401"

fun detail :: "auth_error \<Rightarrow> string" where
  "detail KeyLoadError = ''Key material unavailable''"
| "detail TokenInvalidError = ''Invalid token''"
| "detail TokenExpiredError = ''Token expired''"
| "detail TokenKindMismatchError = ''Wrong token kind''"
| "detail UserNotFoundError = ''User not found''"
| "detail InvalidCredentialsError = ''Invalid credentials''"
| "detail UserStoreUnavailable = ''User store unavailable''"

section \<open>The login controller: \<open>src/apps/api/v1/controllers/auth.py\<close>\<close>

record LoginRequestSchema =
  credentials :: string
  password :: string

record TokenInfoSchema =
  access_token :: TokenString

text \<open>
  A cookie as \<open>response.set_cookie\<close> is asked to set it: the controller passes \<open>key\<close>,
  \<open>value\<close>, \<open>httponly\<close> and \<open>secure\<close> and leaves the other attributes at Starlette's
  defaults. Each call of \<open>set_cookie\<close> appends one \<open>Set-Cookie\<close> header.
\<close>

record cookie =
  cookie_key :: string
  cookie_value :: TokenString
  httponly :: bool
  secure :: bool

record Response =
  cookies :: "cookie list"

definition set_cookie :: "Response \<Rightarrow> string \<Rightarrow> TokenString \<Rightarrow> bool \<Rightarrow> bool \<Rightarrow> Response" where
  "set_cookie r k v h s =
     r\<lparr>cookies := cookies r @ [\<lparr>cookie_key = k, cookie_value = v, httponly = h, secure = s\<rparr>]\<rparr>"

text \<open>
  What the controller calls and does not define: the service method, the two minting
  methods of \<open>Security\<close> and the constant \<open>REFRESH\<close>. \<open>'uow\<close> is the unit of work handed
  through to the service.
\<close>

record 'uow dependencies =
  user_authenticate :: "'uow \<Rightarrow> string \<Rightarrow> string \<Rightarrow> auth_error + UserRecord"
  create_access_token :: "string \<Rightarrow> TokenString"
  create_refresh_token :: "string \<Rightarrow> TokenString"
  REFRESH :: string

text \<open>
  The state a request works on: the \<open>Response\<close> object FastAPI injects, and a log of
  the tokens \<open>Security\<close> has minted for this request.
\<close>

record request_state =
  response :: Response
  minted :: "TokenString list"

text \<open>
  \<open>login\<close>, statement by statement. An exception of \<open>user_authenticate\<close> leaves the
  function at its first line.
\<close>

definition login ::
  "'uow dependencies \<Rightarrow> 'uow \<Rightarrow> LoginRequestSchema \<Rightarrow> request_state
     \<Rightarrow> (auth_error + TokenInfoSchema) \<times> request_state" where
  "login deps uow body st =
     (case user_authenticate deps uow (credentials body) (password body) of
        Inl e \<Rightarrow> (Inl e, st)
      | Inr user \<Rightarrow>
          (let access_token = create_access_token deps (str (user_id user));
               st = st\<lparr>minted := minted st @ [access_token]\<rparr>;
               refresh_token = create_refresh_token deps (str (user_id user));
               st = st\<lparr>minted := minted st @ [refresh_token]\<rparr>;
               st = st\<lparr>response := set_cookie (response st) (REFRESH deps) refresh_token True False\<rparr>
           in (Inr \<lparr>access_token = access_token\<rparr>, st)))"

text \<open>
  The route as FastAPI serves it. The request starts with a fresh \<open>Response\<close>. A
  returned schema is sent with status 200 (the route declares no other) and the headers
  of the injected \<open>Response\<close>; an exception is answered by its handler, which surfaces
  the error (specification 7) and drops the injected \<open>Response\<close>.
\<close>

datatype http_body = TokenInfo TokenInfoSchema | ErrorBody auth_error string

record http_response =
  status :: nat
  response_body :: http_body
  set_cookie_headers :: "cookie list"

definition fresh_request :: request_state where
  "fresh_request = \<lparr>response = \<lparr>cookies = []\<rparr>, minted = []\<rparr>"

definition error_response :: "auth_error \<Rightarrow> http_response" where
  "error_response e =
     \<lparr>status = http_status (surface e), response_body = ErrorBody (surface e) (detail (surface e)),
      set_cookie_headers = []\<rparr>"

definition login_route :: "'uow dependencies \<Rightarrow> 'uow \<Rightarrow> LoginRequestSchema \<Rightarrow> http_response" where
  "login_route deps uow body =
     (case login deps uow body fresh_request of
        (Inr info, st) \<Rightarrow>
          \<lparr>status = 200, response_body = TokenInfo info, set_cookie_headers = cookies (response st)\<rparr>
      | (Inl e, st) \<Rightarrow> error_response e)"

subsection \<open>The application's wiring\<close>

text \<open>
  Modelled from the spec: \<open>Security.create_access_token\<close> and
  \<open>Security.create_refresh_token\<close> of \<open>core.security\<close>, not among the source files,
  as \<open>mint\<close> with the kind and the configured TTL (specification 4.2: minutes, from the
  settings); the service over the user store; and the name of the refresh cookie,
  which \<open>core.constants\<close>, not among the source files, defines.
\<close>

definition application ::
  "Settings \<Rightarrow> KeyPair \<Rightarrow> int \<Rightarrow> string \<Rightarrow> (UserRecord list) dependencies" where
  "application cfg kp now refresh_name =
     \<lparr>user_authenticate = authenticate,
      create_access_token =
        (\<lambda>subject. mint kp now subject Access (60 * access_token_expire_minutes (auth cfg))),
      create_refresh_token =
        (\<lambda>subject. mint kp now subject Refresh (60 * refresh_token_expire_minutes (auth cfg))),
      REFRESH = refresh_name\<rparr>"

text \<open>
  The user of the specification's login scenario, seeded from the \<open>doctor_*\<close> settings.
\<close>

definition seeded_store :: "Settings \<Rightarrow> UserRecord list" where
  "seeded_store cfg =
     [\<lparr>user_id = UserId ''1'', username = doctor_username (auth cfg),
       email = doctor_email (auth cfg),
       password_hash = PasswordHash ''salt'' (doctor_password (auth cfg))\<rparr>]"

section \<open>Concrete scenarios\<close>

text \<open>
  The inputs on which the theorems below are instantiated: the environment without
  overrides and the settings it gives, an environment that sets \<open>PORT\<close>, a matched key
  pair, the application wired at clock reading 1000 with the seeded user of the
  specification's login scenario, two login requests, and an environment that sets
  \<open>PYTEST_DEBUG\<close>.
\<close>

definition default_environ :: settings_environ where
  "default_environ = \<lparr>variables = no_overrides, DB = None, AUTH = None, CLIENT = None\<rparr>"

definition scenario_settings :: Settings where
  "scenario_settings = Settings_init (Settings_class_body no_overrides) default_environ"

definition other_environ :: settings_environ where
  "other_environ =
     \<lparr>variables = no_overrides\<lparr>int_vars := [''PORT'' \<mapsto> 9000]\<rparr>,
      DB = None, AUTH = None, CLIENT = None\<rparr>"

definition scenario_keys :: KeyPair where
  "scenario_keys = \<lparr>private_key = PrivateKey 7, public_key = PublicKey 7\<rparr>"

definition scenario :: "(UserRecord list) dependencies" where
  "scenario = application scenario_settings scenario_keys 1000 ''refresh_token''"

definition doctor :: UserRecord where
  "doctor = \<lparr>user_id = UserId ''1'', username = ''doctor'', email = ''doctor@example.com'',
     password_hash = PasswordHash ''salt'' ''securepassword''\<rparr>"

definition doctor_login :: LoginRequestSchema where
  "doctor_login = \<lparr>credentials = ''doctor@example.com'', password = ''securepassword''\<rparr>"

definition wrong_password_login :: LoginRequestSchema where
  "wrong_password_login = \<lparr>credentials = ''doctor@example.com'', password = ''guess''\<rparr>"

definition pytest_environ :: environ where
  "pytest_environ = no_overrides\<lparr>bool_vars := [''PYTEST_DEBUG'' \<mapsto> True]\<rparr>"

section \<open>Properties of the configuration\<close>

text \<open>
  C8. With no configuration override, the access-token TTL is 60 minutes and the
  refresh-token TTL is 10000 minutes: 80 minutes short of the 10080 minutes of seven
  days, so more than six days and at most seven, and strictly larger than the access
  TTL.
\<close>

theorem default_token_ttls:
  "access_token_expire_minutes (AuthSettings_init no_overrides) = 60
   \<and> refresh_token_expire_minutes (AuthSettings_init no_overrides) = 10000
   \<and> 7 * 24 * 60 - refresh_token_expire_minutes (AuthSettings_init no_overrides) = 80
   \<and> 6 * 24 * 60 < refresh_token_expire_minutes (AuthSettings_init no_overrides)
   \<and> refresh_token_expire_minutes (AuthSettings_init no_overrides) \<le> 7 * 24 * 60
   \<and> access_token_expire_minutes (AuthSettings_init no_overrides)
       < refresh_token_expire_minutes (AuthSettings_init no_overrides)"
  by (simp add: AuthSettings_init_def no_overrides_def Field_def)

subsection \<open>The cached settings\<close>

lemma get_settings_cached:
  "cache p = Some r \<Longrightarrow> get_settings p = (r, p)"
  by (simp add: get_settings_def)

text \<open>
  While the cache is filled and is not cleared, every call returns the cached
  reference and no object is constructed; when moreover no attribute is assigned, the
  heap stays as it is.
\<close>

lemma run_cached:
  "cache p = Some r \<Longrightarrow> \<not> list_ex is_cache_clear ops \<Longrightarrow>
     fst (run p ops) = replicate (length (filter is_get_settings ops)) r
     \<and> cache (snd (run p ops)) = Some r
     \<and> length (heap (snd (run p ops))) = length (heap p)
     \<and> (\<not> list_ex is_set_attr ops \<longrightarrow> heap (snd (run p ops)) = heap p)"
proof (induction ops arbitrary: p)
  case Nil
  then show ?case by simp
next
  case (Cons x ops)
  from Cons.prems(2) have rest: "\<not> list_ex is_cache_clear ops" by simp
  show ?case
  proof (cases x)
    case GetSettings
    from Cons.IH [OF Cons.prems(1) rest] Cons.prems(1) GetSettings show ?thesis
      by (cases "run p ops") (simp add: get_settings_cached)
  next
    case (SetEnviron senv)
    have "cache (p\<lparr>environment := senv\<rparr>) = Some r" using Cons.prems(1) by simp
    from Cons.IH [OF this rest] SetEnviron show ?thesis by simp
  next
    case (SetAttr a f)
    let ?p = "p\<lparr>heap := (if a < length (heap p) then (heap p)[a := f (heap p ! a)]
                            else heap p)\<rparr>"
    have "cache ?p = Some r" using Cons.prems(1) by simp
    from Cons.IH [OF this rest] SetAttr show ?thesis by simp
  next
    case CacheClear
    with Cons.prems(2) show ?thesis by simp
  qed
qed

lemma import_config_cache:
  "fst (import_config senv) = 0
   \<and> cache (snd (import_config senv)) = Some 0
   \<and> heap (snd (import_config senv))
       = [Settings_init (Settings_class_body (variables senv)) senv]"
  by (simp add: import_config_def get_settings_def Let_def)

text \<open>
  C9, as amended. Importing the module constructs the settings object once. After any
  sequence of later operations that does not call \<open>get_settings.cache_clear()\<close>, every
  call of \<open>get_settings\<close> has returned a reference to that same object, the cache still
  holds it, and the constructor has run exactly once, whatever happened to the
  environment; and when the sequence assigns to no attribute either, the object is as
  it was constructed.
\<close>

theorem settings_cached_until_cleared:
  assumes "\<not> list_ex is_cache_clear ops"
  shows "fst (run (snd (import_config senv)) ops)
       = replicate (length (filter is_get_settings ops)) (fst (import_config senv))
     \<and> cache (snd (run (snd (import_config senv)) ops)) = Some (fst (import_config senv))
     \<and> constructed (snd (run (snd (import_config senv)) ops)) = 1
     \<and> (\<not> list_ex is_set_attr ops \<longrightarrow>
          heap (snd (run (snd (import_config senv)) ops)) = heap (snd (import_config senv)))"
  using run_cached [of "snd (import_config senv)" 0 ops] assms
    import_config_cache [of senv]
  by (simp add: constructed_def)

theorem settings_cached_until_cleared_witness:
  "\<not> list_ex is_cache_clear [GetSettings, SetEnviron other_environ, GetSettings]
   \<and> \<not> list_ex is_set_attr [GetSettings, SetEnviron other_environ, GetSettings]
   \<and> fst (run (snd (import_config default_environ))
            [GetSettings, SetEnviron other_environ, GetSettings])
       = [fst (import_config default_environ), fst (import_config default_environ)]
   \<and> constructed (snd (run (snd (import_config default_environ))
            [GetSettings, SetEnviron other_environ, GetSettings])) = 1
   \<and> heap (snd (run (snd (import_config default_environ))
            [GetSettings, SetEnviron other_environ, GetSettings]))
       = heap (snd (import_config default_environ))"
proof -
  have c: "\<not> list_ex is_cache_clear [GetSettings, SetEnviron other_environ, GetSettings]"
    by simp
  have a: "\<not> list_ex is_set_attr [GetSettings, SetEnviron other_environ, GetSettings]"
    by simp
  from settings_cached_until_cleared [OF c, of default_environ] c a show ?thesis
    by simp
qed

text \<open>
  Without the two conditions the claim fails. The object is not frozen: an assignment
  to an attribute of the cached object changes it after its initialisation. And
  \<open>cache_clear\<close> empties the slot: the next call of \<open>get_settings\<close> runs the constructor
  a second time and returns another object than the first call did, here one with
  another \<open>port\<close>, the environment having changed in between.
\<close>

theorem settings_mutable_and_clearable:
  "heap (snd (run (snd (import_config default_environ))
           [SetAttr 0 (\<lambda>s. s\<lparr>port := 9000\<rparr>)])) ! 0
     \<noteq> heap (snd (import_config default_environ)) ! 0
   \<and> fst (run (snd (import_config default_environ))
           [CacheClear, SetEnviron other_environ, GetSettings])
     \<noteq> [fst (import_config default_environ)]
   \<and> constructed (snd (run (snd (import_config default_environ))
           [CacheClear, SetEnviron other_environ, GetSettings])) = 2
   \<and> port (heap (snd (run (snd (import_config default_environ))
           [CacheClear, SetEnviron other_environ, GetSettings])) ! 1) = 9000
   \<and> port (heap (snd (run (snd (import_config default_environ))
           [CacheClear, SetEnviron other_environ, GetSettings])) ! 0) = 8000"
proof -
  have p: "port (Settings_init (Settings_class_body no_overrides) default_environ) = 8000"
    by (simp add: Settings_init_def default_environ_def no_overrides_def Field_def Let_def)
  have q: "port (Settings_init (Settings_class_body no_overrides) other_environ) = 9000"
    by (simp add: Settings_init_def other_environ_def no_overrides_def Field_def Let_def)
  have v: "variables default_environ = no_overrides"
    by (simp add: default_environ_def)
  have i: "import_config default_environ =
      (0, \<lparr>environment = default_environ,
           class_attributes = Settings_class_body no_overrides,
           heap = [Settings_init (Settings_class_body no_overrides) default_environ],
           cache = Some 0\<rparr>)"
    by (simp add: import_config_def get_settings_def Let_def v)
  have m: "Settings_init (Settings_class_body no_overrides) default_environ\<lparr>port := 9000\<rparr>
      \<noteq> Settings_init (Settings_class_body no_overrides) default_environ"
  proof
    assume "Settings_init (Settings_class_body no_overrides) default_environ\<lparr>port := 9000\<rparr>
      = Settings_init (Settings_class_body no_overrides) default_environ"
    then have "port (Settings_init (Settings_class_body no_overrides) default_environ\<lparr>port := 9000\<rparr>)
      = port (Settings_init (Settings_class_body no_overrides) default_environ)"
      by simp
    with p show False by simp
  qed
  show ?thesis
    using m by (simp add: i get_settings_def constructed_def Let_def p q)
qed

subsection \<open>The two database DSNs\<close>

lemma DatabaseSettings_init_async:
  "dsn_database (async_database_url (DatabaseSettings_init env)) =
     Some (if pytest_debug (DatabaseSettings_init env)
           then pg_test_database (DatabaseSettings_init env)
           else pg_database (DatabaseSettings_init env))"
  by (simp add: DatabaseSettings_init_def validate_sync_database_url_def
        validate_async_database_url_def dsn_database_def build_db_dsn_def Let_def)

lemma DatabaseSettings_init_sync:
  "dsn_database (sync_database_url (DatabaseSettings_init env)) =
     Some (pg_database (DatabaseSettings_init env))"
  by (simp add: DatabaseSettings_init_def validate_sync_database_url_def
        validate_async_database_url_def dsn_database_def build_db_dsn_def Let_def)

lemma pytest_environ_fields:
  "pytest_debug (DatabaseSettings_init pytest_environ)"
  "pg_test_database (DatabaseSettings_init pytest_environ) = ''doctor_test''"
  "pg_database (DatabaseSettings_init pytest_environ) = ''postgres''"
  by (simp_all add: DatabaseSettings_init_def validate_sync_database_url_def
        validate_async_database_url_def DatabaseSettings_fields_def pytest_environ_def
        no_overrides_def Field_def Let_def)

text \<open>
  C10. For every \<open>DatabaseSettings\<close> with \<open>pytest_debug\<close> set, the asynchronous DSN
  names the test database \<open>pg_test_database\<close> while the synchronous DSN still names
  \<open>pg_database\<close>; the two DSNs name the same database exactly when \<open>pytest_debug\<close> is
  unset or the two database names coincide.
\<close>

theorem dsn_databases_under_pytest_debug:
  "(pytest_debug (DatabaseSettings_init env) \<longrightarrow>
      dsn_database (async_database_url (DatabaseSettings_init env))
        = Some (pg_test_database (DatabaseSettings_init env))
      \<and> dsn_database (sync_database_url (DatabaseSettings_init env))
        = Some (pg_database (DatabaseSettings_init env)))
   \<and> (dsn_database (async_database_url (DatabaseSettings_init env))
        = dsn_database (sync_database_url (DatabaseSettings_init env))
      \<longleftrightarrow> \<not> pytest_debug (DatabaseSettings_init env)
          \<or> pg_test_database (DatabaseSettings_init env) = pg_database (DatabaseSettings_init env))"
  by (simp add: DatabaseSettings_init_async DatabaseSettings_init_sync)

theorem dsn_databases_under_pytest_debug_witness:
  "pytest_debug (DatabaseSettings_init pytest_environ)
   \<and> dsn_database (async_database_url (DatabaseSettings_init pytest_environ)) = Some ''doctor_test''
   \<and> dsn_database (sync_database_url (DatabaseSettings_init pytest_environ)) = Some ''postgres''
   \<and> dsn_database (async_database_url (DatabaseSettings_init pytest_environ))
        \<noteq> dsn_database (sync_database_url (DatabaseSettings_init pytest_environ))"
  using dsn_databases_under_pytest_debug [of pytest_environ] pytest_environ_fields
  by simp

section \<open>Properties of the Token Codec\<close>

lemma scenario_keys_matched: "matched scenario_keys"
  by (simp add: scenario_keys_def matched_def sign_def)

lemma matched_verify_signature:
  "matched kp \<Longrightarrow> verify_signature (public_key kp) c (sign (private_key kp) c)"
  by (cases kp, cases "private_key kp", cases "public_key kp") (simp add: matched_def sign_def)

text \<open>What \<open>verify\<close> answers on a token that \<open>mint\<close> made with a matched key pair.\<close>

lemma verify_mint:
  "matched kp \<Longrightarrow>
   verify kp now' (mint kp now subject k ttl) expected_kind =
     (if now + ttl \<le> now' then Inl TokenExpiredError
      else if k \<noteq> expected_kind then Inl TokenKindMismatchError
      else Inr subject)"
  by (simp add: verify_def mint_def Let_def matched_verify_signature)

text \<open>
  C5. Round trip: for every subject, kind and ttl, a token minted at \<open>now\<close> and
  verified with its own kind at a time \<open>now'\<close> before the ttl has elapsed
  (\<open>now' < now + ttl\<close>) yields the subject. The key pair is one the Key Material
  Provider accepts.
\<close>

theorem verify_mint_round_trip:
  "matched kp \<Longrightarrow> now' < now + ttl \<Longrightarrow>
   verify kp now' (mint kp now subject k ttl) k = Inr subject"
  by (simp add: verify_mint)

theorem verify_mint_round_trip_witness:
  "matched scenario_keys \<and> (1059::int) < 1000 + 60
   \<and> verify scenario_keys 1059 (mint scenario_keys 1000 ''1'' Refresh 60) Refresh = Inr ''1''"
proof -
  have t: "(1059::int) < 1000 + 60" by simp
  from verify_mint_round_trip [OF scenario_keys_matched t, of "''1''" Refresh]
    scenario_keys_matched t
  show ?thesis by simp
qed

text \<open>
  C7. Expiry: for every subject and kind, and whatever kind is expected, \<open>verify\<close> on a
  token whose expiry time \<open>now + ttl\<close> is at or before the current time \<open>now'\<close> fails
  with \<open>TokenExpiredError\<close>, an error kind distinct from \<open>TokenInvalidError\<close> and
  \<open>TokenKindMismatchError\<close>.
\<close>

theorem expired_token_rejected:
  "matched kp \<Longrightarrow> now + ttl \<le> now' \<Longrightarrow>
   verify kp now' (mint kp now subject k ttl) expected_kind = Inl TokenExpiredError
   \<and> TokenExpiredError \<noteq> TokenInvalidError
   \<and> TokenExpiredError \<noteq> TokenKindMismatchError"
  by (simp add: verify_mint)

theorem expired_token_rejected_witness:
  "matched scenario_keys \<and> (1000::int) + (- 1) \<le> 1000
   \<and> verify scenario_keys 1000 (mint scenario_keys 1000 ''1'' Access (- 1)) Access
       = Inl TokenExpiredError"
proof -
  have t: "(1000::int) + (- 1) \<le> 1000" by simp
  from expired_token_rejected [OF scenario_keys_matched t, of "''1''" Access Access]
    scenario_keys_matched t
  show ?thesis by simp
qed

section \<open>Properties of the login controller\<close>

subsection \<open>The two paths through \<open>login\<close>\<close>

lemma login_Inr:
  "user_authenticate deps uow (credentials body) (password body) = Inr user \<Longrightarrow>
   login deps uow body st =
     (Inr \<lparr>access_token = create_access_token deps (str (user_id user))\<rparr>,
      \<lparr>response = \<lparr>cookies = cookies (response st) @
          [\<lparr>cookie_key = REFRESH deps,
            cookie_value = create_refresh_token deps (str (user_id user)),
            httponly = True, secure = False\<rparr>]\<rparr>,
       minted = minted st @ [create_access_token deps (str (user_id user)),
                             create_refresh_token deps (str (user_id user))]\<rparr>)"
  by (simp add: login_def Let_def set_cookie_def)

lemma login_Inl:
  "user_authenticate deps uow (credentials body) (password body) = Inl e \<Longrightarrow>
   login deps uow body st = (Inl e, st)"
  by (simp add: login_def)

lemma login_route_Inr:
  "user_authenticate deps uow (credentials body) (password body) = Inr user \<Longrightarrow>
   login_route deps uow body =
     \<lparr>status = 200,
      response_body = TokenInfo \<lparr>access_token = create_access_token deps (str (user_id user))\<rparr>,
      set_cookie_headers =
        [\<lparr>cookie_key = REFRESH deps,
          cookie_value = create_refresh_token deps (str (user_id user)),
          httponly = True, secure = False\<rparr>]\<rparr>"
  by (simp add: login_route_def login_Inr fresh_request_def)

lemma login_route_Inl:
  "user_authenticate deps uow (credentials body) (password body) = Inl e \<Longrightarrow>
   login_route deps uow body = error_response e"
  by (simp add: login_route_def login_Inl)

lemma login_route_secure:
  "map secure (set_cookie_headers (login_route deps uow body)) =
     (case user_authenticate deps uow (credentials body) (password body) of
        Inl e \<Rightarrow> [] | Inr user \<Rightarrow> [False])"
  by (cases "user_authenticate deps uow (credentials body) (password body)")
     (simp_all add: login_route_Inr login_route_Inl error_response_def)

subsection \<open>The scenarios, evaluated\<close>

lemma seeded_store_scenario: "seeded_store scenario_settings = [doctor]"
  by (simp add: seeded_store_def scenario_settings_def Settings_init_def Settings_class_body_def
      default_environ_def AuthSettings_init_def no_overrides_def Field_def doctor_def Let_def)

lemma scenario_ttls:
  "access_token_expire_minutes (auth scenario_settings) = 60"
  "refresh_token_expire_minutes (auth scenario_settings) = 10000"
  by (simp_all add: scenario_settings_def Settings_init_def Settings_class_body_def
      default_environ_def AuthSettings_init_def no_overrides_def Field_def Let_def)

lemma scenario_fields:
  "user_authenticate scenario = authenticate"
  "create_access_token scenario = (\<lambda>subject. mint scenario_keys 1000 subject Access 3600)"
  "create_refresh_token scenario = (\<lambda>subject. mint scenario_keys 1000 subject Refresh 600000)"
  "REFRESH scenario = ''refresh_token''"
  by (simp_all add: scenario_def application_def scenario_ttls)

lemma authenticate_doctor:
  "authenticate [doctor] ''doctor@example.com'' ''securepassword'' = Inr doctor"
  by (simp add: authenticate_def find_by_username_or_email_def doctor_def)

lemma authenticate_wrong_password:
  "authenticate [doctor] ''doctor@example.com'' ''guess'' = Inl InvalidCredentialsError"
  by (simp add: authenticate_def find_by_username_or_email_def doctor_def)

subsection \<open>Success\<close>

text \<open>
  C1. For every login request whose credentials the service accepts for a stored user,
  the route answers with status 200 and a body holding the access token minted for that
  user's id, and sets exactly one cookie: the refresh token under the name \<open>REFRESH\<close>,
  with \<open>HttpOnly\<close> set. With \<open>Security.create_access_token\<close> minting as the Token Codec
  specifies, for any key pair, clock reading and ttl, that access token is not the
  empty string, and while it has not expired it verifies as an access token whose
  subject is that user's id. The service, the refresh minting and the cookie name are
  arbitrary.
\<close>

theorem login_success:
  assumes "user_authenticate deps uow (credentials body) (password body) = Inr user"
  shows "status (login_route
             (deps\<lparr>create_access_token := \<lambda>subject. mint kp now subject Access ttl\<rparr>)
             uow body) = 200
    \<and> response_body (login_route
             (deps\<lparr>create_access_token := \<lambda>subject. mint kp now subject Access ttl\<rparr>)
             uow body)
        = TokenInfo \<lparr>access_token = mint kp now (str (user_id user)) Access ttl\<rparr>
    \<and> mint kp now (str (user_id user)) Access ttl \<noteq> Malformed []
    \<and> (matched kp \<and> now' < now + ttl \<longrightarrow>
         verify kp now' (mint kp now (str (user_id user)) Access ttl) Access
           = Inr (str (user_id user)))
    \<and> length (set_cookie_headers (login_route
             (deps\<lparr>create_access_token := \<lambda>subject. mint kp now subject Access ttl\<rparr>)
             uow body)) = 1
    \<and> set_cookie_headers (login_route
             (deps\<lparr>create_access_token := \<lambda>subject. mint kp now subject Access ttl\<rparr>)
             uow body)
        = [\<lparr>cookie_key = REFRESH deps,
            cookie_value = create_refresh_token deps (str (user_id user)),
            httponly = True, secure = False\<rparr>]"
proof -
  let ?deps = "deps\<lparr>create_access_token := \<lambda>subject. mint kp now subject Access ttl\<rparr>"
  have a: "user_authenticate ?deps uow (credentials body) (password body) = Inr user"
    using assms by simp
  have r: "login_route ?deps uow body =
     \<lparr>status = 200,
      response_body = TokenInfo \<lparr>access_token = mint kp now (str (user_id user)) Access ttl\<rparr>,
      set_cookie_headers =
        [\<lparr>cookie_key = REFRESH deps,
          cookie_value = create_refresh_token deps (str (user_id user)),
          httponly = True, secure = False\<rparr>]\<rparr>"
    using login_route_Inr [OF a] by simp
  have n: "mint kp now (str (user_id user)) Access ttl \<noteq> Malformed []"
    by (simp add: mint_def Let_def)
  have v: "matched kp \<and> now' < now + ttl \<longrightarrow>
         verify kp now' (mint kp now (str (user_id user)) Access ttl) Access
           = Inr (str (user_id user))"
    by (simp add: verify_mint)
  from n v show ?thesis unfolding r by simp
qed

text \<open>
  The specification's scenario: the seeded doctor logs in with
  \<open>doctor@example.com\<close> and \<open>securepassword\<close>, and the token is verified at the moment
  it was minted.
\<close>

theorem login_success_witness:
  "user_authenticate scenario (seeded_store scenario_settings)
      (credentials doctor_login) (password doctor_login) = Inr doctor
   \<and> matched scenario_keys \<and> (1000::int) < 1000 + 3600
   \<and> status (login_route scenario (seeded_store scenario_settings) doctor_login) = 200
   \<and> response_body (login_route scenario (seeded_store scenario_settings) doctor_login)
       = TokenInfo \<lparr>access_token = mint scenario_keys 1000 ''1'' Access 3600\<rparr>
   \<and> mint scenario_keys 1000 ''1'' Access 3600 \<noteq> Malformed []
   \<and> verify scenario_keys 1000 (mint scenario_keys 1000 ''1'' Access 3600) Access = Inr ''1''
   \<and> set_cookie_headers (login_route scenario (seeded_store scenario_settings) doctor_login)
       = [\<lparr>cookie_key = ''refresh_token'',
           cookie_value = mint scenario_keys 1000 ''1'' Refresh 600000,
           httponly = True, secure = False\<rparr>]"
proof -
  have a: "user_authenticate scenario (seeded_store scenario_settings)
      (credentials doctor_login) (password doctor_login) = Inr doctor"
    by (simp add: scenario_fields seeded_store_scenario doctor_login_def authenticate_doctor)
  have i: "str (user_id doctor) = ''1''" by (simp add: doctor_def)
  have s: "scenario\<lparr>create_access_token :=
             \<lambda>subject. mint scenario_keys 1000 subject Access 3600\<rparr> = scenario"
    by (simp add: scenario_def application_def scenario_ttls)
  have t: "(1000::int) < 1000 + 3600" by simp
  from login_success [OF a, of scenario_keys 1000 3600 1000] a scenario_keys_matched t
  show ?thesis
    unfolding s i by (simp add: scenario_fields)
qed

subsection \<open>Failure\<close>

text \<open>
  C2. For every login request whose authentication fails, with \<open>UserNotFoundError\<close>
  (unknown identifier) or \<open>InvalidCredentialsError\<close> (wrong password), the route answers
  with status 401 and no \<open>Set-Cookie\<close> header, and \<open>login\<close> leaves the request state as
  it found it: no cookie is set on the response and no token is minted.
\<close>

theorem login_failure:
  assumes "user_authenticate deps uow (credentials body) (password body) = Inl e"
    and "e = UserNotFoundError \<or> e = InvalidCredentialsError"
  shows "status (login_route deps uow body) = 401
    \<and> set_cookie_headers (login_route deps uow body) = []
    \<and> response_body (login_route deps uow body)
        = ErrorBody InvalidCredentialsError (detail InvalidCredentialsError)
    \<and> login deps uow body st = (Inl e, st)"
  using assms by (auto simp: login_route_Inl login_Inl error_response_def)

theorem login_failure_witness:
  "user_authenticate scenario (seeded_store scenario_settings)
      (credentials wrong_password_login) (password wrong_password_login)
     = Inl InvalidCredentialsError
   \<and> status (login_route scenario (seeded_store scenario_settings) wrong_password_login) = 401
   \<and> set_cookie_headers (login_route scenario (seeded_store scenario_settings) wrong_password_login) = []
   \<and> minted (snd (login scenario (seeded_store scenario_settings) wrong_password_login fresh_request)) = []
   \<and> cookies (response (snd (login scenario (seeded_store scenario_settings) wrong_password_login fresh_request))) = []"
proof -
  have a: "user_authenticate scenario (seeded_store scenario_settings)
      (credentials wrong_password_login) (password wrong_password_login)
     = Inl InvalidCredentialsError"
    by (simp add: scenario_fields seeded_store_scenario wrong_password_login_def
        authenticate_wrong_password)
  have k: "InvalidCredentialsError = UserNotFoundError
      \<or> InvalidCredentialsError = InvalidCredentialsError" by simp
  from login_failure [OF a k, of fresh_request] a show ?thesis
    by (simp add: fresh_request_def)
qed

subsection \<open>The \<open>Secure\<close> attribute\<close>

text \<open>
  C3, as amended. The \<open>Secure\<close> attribute of the refresh-token cookie is fixed to false:
  whatever the collaborators, the constant, the unit of work and the request, a
  successful login sets one cookie with \<open>Secure\<close> disabled and a failed one sets none.
  The controller reads no setting, and \<open>Settings\<close> has no field for the attribute.
\<close>

theorem cookie_secure_fixed_false:
  "map secure (set_cookie_headers (login_route deps uow body)) =
     (case user_authenticate deps uow (credentials body) (password body) of
        Inl e \<Rightarrow> [] | Inr user \<Rightarrow> [False])"
  by (rule login_route_secure)

text \<open>
  So no input of the controller makes it set a cookie with \<open>Secure\<close> enabled.
\<close>

theorem cookie_secure_never_enabled:
  "\<not> (\<exists>(deps :: (UserRecord list) dependencies) uow body c.
        c \<in> set (set_cookie_headers (login_route deps uow body)) \<and> secure c)"
proof
  assume "\<exists>(deps :: (UserRecord list) dependencies) uow body c.
        c \<in> set (set_cookie_headers (login_route deps uow body)) \<and> secure c"
  then obtain deps :: "(UserRecord list) dependencies" and uow body c
    where c: "c \<in> set (set_cookie_headers (login_route deps uow body))" and s: "secure c"
    by blast
  from c s have "True \<in> set (map secure (set_cookie_headers (login_route deps uow body)))"
    by force
  then show False
    by (simp add: login_route_secure split: sum.splits)
qed

subsection \<open>Enumeration resistance\<close>

text \<open>
  C4. For any pair of login attempts against the same user store, one with an invalid
  secret for an existing user and one with an identifier the store does not know, the
  responses are identical: the same error kind \<open>InvalidCredentialsError\<close>, the same
  status 401, the same message, and no cookie.
\<close>

theorem enumeration_resistance:
  assumes "find_by_username_or_email store known = Some u"
    and "\<not> PasswordHasher_verify wrong (password_hash u)"
    and "find_by_username_or_email store unknown = None"
  shows "login_route (deps\<lparr>user_authenticate := authenticate\<rparr>) store
           \<lparr>credentials = known, password = wrong\<rparr>
       = login_route (deps\<lparr>user_authenticate := authenticate\<rparr>) store
           \<lparr>credentials = unknown, password = secret\<rparr>
    \<and> login_route (deps\<lparr>user_authenticate := authenticate\<rparr>) store
           \<lparr>credentials = known, password = wrong\<rparr>
       = \<lparr>status = 401,
          response_body = ErrorBody InvalidCredentialsError (detail InvalidCredentialsError),
          set_cookie_headers = []\<rparr>"
proof -
  have k: "authenticate store known wrong = Inl InvalidCredentialsError"
    using assms(1,2) by (simp add: authenticate_def)
  have n: "authenticate store unknown secret = Inl UserNotFoundError"
    using assms(3) by (simp add: authenticate_def)
  show ?thesis
    by (simp add: login_route_Inl k n error_response_def)
qed

theorem enumeration_resistance_witness:
  "find_by_username_or_email [doctor] ''doctor'' = Some doctor
   \<and> \<not> PasswordHasher_verify ''guess'' (password_hash doctor)
   \<and> find_by_username_or_email [doctor] ''nobody@example.com'' = None
   \<and> login_route scenario [doctor] \<lparr>credentials = ''doctor'', password = ''guess''\<rparr>
       = login_route scenario [doctor]
           \<lparr>credentials = ''nobody@example.com'', password = ''securepassword''\<rparr>
   \<and> status (login_route scenario [doctor] \<lparr>credentials = ''doctor'', password = ''guess''\<rparr>) = 401"
proof -
  have f: "find_by_username_or_email [doctor] ''doctor'' = Some doctor"
    by (simp add: find_by_username_or_email_def doctor_def)
  have w: "\<not> PasswordHasher_verify ''guess'' (password_hash doctor)"
    by (simp add: doctor_def)
  have n: "find_by_username_or_email [doctor] ''nobody@example.com'' = None"
    by (simp add: find_by_username_or_email_def doctor_def)
  have s: "scenario\<lparr>user_authenticate := authenticate\<rparr> = scenario"
    by (simp add: scenario_def application_def)
  have e: "login_route scenario [doctor] \<lparr>credentials = ''doctor'', password = ''guess''\<rparr>
       = login_route scenario [doctor]
           \<lparr>credentials = ''nobody@example.com'', password = ''securepassword''\<rparr>"
    and r: "login_route scenario [doctor] \<lparr>credentials = ''doctor'', password = ''guess''\<rparr>
       = \<lparr>status = 401,
          response_body = ErrorBody InvalidCredentialsError (detail InvalidCredentialsError),
          set_cookie_headers = []\<rparr>"
    using enumeration_resistance [OF f w n, of scenario "''securepassword''"]
    unfolding s by blast+
  have "status (login_route scenario [doctor] \<lparr>credentials = ''doctor'', password = ''guess''\<rparr>) = 401"
    unfolding r by simp
  with f w n e show ?thesis by blast
qed

end
